theory Spec2Isabelle
  imports
    Complex_Main
    "HOL-Library.Char_ord"
    "HOL-Library.List_Lexorder"
    "HOL-Library.Multiset"
    "HOL-Library.AList"
    "HOL-Library.Sublist"
begin

section \<open>The market data module (\<^verbatim>\<open>src/market_data.py\<close>)\<close>

text \<open>
  A shallow embedding of class \<^verbatim>\<open>MarketDataFetcher\<close>. Python floats are modelled as
  \<^typ>\<open>real\<close>, Python strings as \<^typ>\<open>string\<close>, dictionaries that the code iterates
  over as association lists in insertion order (\<^const>\<open>AList.update\<close> is Python's
  \<^verbatim>\<open>d[k] = v\<close>, \<^const>\<open>map_of\<close> its lookup), and the three instance dictionaries keyed
  by the cache key as maps. Every exception the source can raise is a value \<open>Inl e\<close>.
  The dictionary a call returns is the object it cached; what a caller does to that object
  afterwards is outside the model.
\<close>

subsection \<open>Python values and exceptions\<close>

datatype error =
  KeyError | TypeError | ValueError | AttributeError | IndexError
  | ZeroDivisionError | RequestException

text \<open>What \<^verbatim>\<open>response.json()\<close> returns.\<close>

datatype json =
  JNull | JBool bool | JNum real | JStr string
  | JArr "json list" | JObj "(string \<times> json) list"

subsection \<open>The indicator engine: \<^verbatim>\<open>calculate_technical_indicators\<close>\<close>

text \<open>One element of the list returned by \<^verbatim>\<open>get_historical_prices\<close>.\<close>

record price_point =
  timestamp :: real
  price_at :: real

text \<open>The dictionary returned at lines 247-253.\<close>

record indicators =
  sma_7 :: real
  sma_14 :: real
  rsi_14 :: real
  current_price :: real
  price_change_7d :: real

text \<open>The slice \<^verbatim>\<open>xs[-n:]\<close> for a positive \<open>n\<close>: the last \<open>n\<close> elements, all of them
  when there are fewer.\<close>

definition tail_slice :: "nat \<Rightarrow> 'a list \<Rightarrow> 'a list" where
  "tail_slice n xs = drop (length xs - n) xs"

text \<open>Python's \<^verbatim>\<open>/\<close> on floats raises on a zero divisor.\<close>

definition py_div :: "real \<Rightarrow> real \<Rightarrow> error + real" where
  "py_div a b = (if b = 0 then Inl ZeroDivisionError else Inr (a / b))"

text \<open>Line 234: \<^verbatim>\<open>[prices[i] - prices[i-1] for i in range(1, len(prices))]\<close>.\<close>

definition changes :: "real list \<Rightarrow> real list" where
  "changes prices = map (\<lambda>i. prices ! i - prices ! (i - 1)) [1..<length prices]"

text \<open>Lines 235 and 236.\<close>

definition gains :: "real list \<Rightarrow> real list" where
  "gains prices = map (\<lambda>c. if c > 0 then c else 0) (changes prices)"

definition losses :: "real list \<Rightarrow> real list" where
  "losses prices = map (\<lambda>c. if c < 0 then - c else 0) (changes prices)"

text \<open>Lines 238 and 239, the local variables \<^verbatim>\<open>avg_gain\<close> and \<^verbatim>\<open>avg_loss\<close>.\<close>

definition avg_gain :: "real list \<Rightarrow> real" where
  "avg_gain prices =
     (if gains prices \<noteq> [] then sum_list (tail_slice 14 (gains prices)) / 14 else 0)"

definition avg_loss :: "real list \<Rightarrow> real" where
  "avg_loss prices =
     (if losses prices \<noteq> [] then sum_list (tail_slice 14 (losses prices)) / 14 else 0)"

text \<open>Lines 241-245.\<close>

definition rsi :: "real list \<Rightarrow> error + real" where
  "rsi prices =
     (if avg_loss prices = 0 then Inr 100
      else case py_div (avg_gain prices) (avg_loss prices) of
             Inl e \<Rightarrow> Inl e
           | Inr rs \<Rightarrow>
               (case py_div 100 (1 + rs) of
                  Inl e \<Rightarrow> Inl e
                | Inr d \<Rightarrow> Inr (100 - d)))"

text \<open>Line 252.\<close>

definition change_7d :: "real list \<Rightarrow> error + real" where
  "change_7d prices =
     (if prices ! 0 > 0
      then (case py_div (last prices - prices ! 0) (prices ! 0) of
              Inl e \<Rightarrow> Inl e
            | Inr d \<Rightarrow> Inr (d * 100))
      else Inr 0)"

text \<open>
  The function itself, applied to the list that \<^verbatim>\<open>get_historical_prices\<close> returned.
  \<open>Inr None\<close> is the empty dictionary of line 225, \<open>Inl e\<close> an exception that escapes.
\<close>

definition calculate_technical_indicators :: "price_point list \<Rightarrow> error + indicators option" where
  "calculate_technical_indicators historical =
     (if historical = [] \<or> length historical < 14 then Inr None
      else
        let prices = map price_at historical;
            sma7 = (if length prices \<ge> 7 then sum_list (tail_slice 7 prices) / 7
                    else last prices);
            sma14 = (if length prices \<ge> 14 then sum_list (tail_slice 14 prices) / 14
                     else last prices)
        in case rsi prices of
             Inl e \<Rightarrow> Inl e
           | Inr r \<Rightarrow>
               (case change_7d prices of
                  Inl e \<Rightarrow> Inl e
                | Inr pc \<Rightarrow>
                    Inr (Some \<lparr>sma_7 = sma7, sma_14 = sma14, rsi_14 = r,
                               current_price = last prices, price_change_7d = pc\<rparr>)))"

text \<open>The arithmetic mean in the specification's words: the sum divided by the number of
  elements averaged.\<close>

definition mean :: "real list \<Rightarrow> real" where
  "mean xs = sum_list xs / real (length xs)"

subsection \<open>The request fingerprint\<close>

text \<open>\<^verbatim>\<open>sep.join(xs)\<close>.\<close>

fun join :: "string \<Rightarrow> string list \<Rightarrow> string" where
  "join sep [] = []"
| "join sep [x] = x"
| "join sep (x # y # ys) = x @ sep @ join sep (y # ys)"

text \<open>Line 68. Python compares strings lexicographically by code point, which is the order
  of \<^typ>\<open>string\<close> here, and \<^verbatim>\<open>sorted\<close> returns the ascending permutation.\<close>

definition cache_key :: "string list \<Rightarrow> string" where
  "cache_key coins = ''prices_'' @ join ''_'' (sort coins)"

subsection \<open>Python operations on decoded JSON\<close>

text \<open>\<^verbatim>\<open>bool(v)\<close>, the truth value that \<^verbatim>\<open>if\<close> and \<^verbatim>\<open>any\<close> test.\<close>

fun truthy :: "json \<Rightarrow> bool" where
  "truthy JNull = False"
| "truthy (JBool b) = b"
| "truthy (JNum r) = (r \<noteq> 0)"
| "truthy (JStr s) = (s \<noteq> [])"
| "truthy (JArr xs) = (xs \<noteq> [])"
| "truthy (JObj kvs) = (kvs \<noteq> [])"

text \<open>\<^verbatim>\<open>v[k]\<close> for a string \<open>k\<close>: only a dictionary can be subscripted by a string.\<close>

definition getitem :: "json \<Rightarrow> string \<Rightarrow> error + json" where
  "getitem v k =
     (case v of
        JObj kvs \<Rightarrow> (case map_of kvs k of Some x \<Rightarrow> Inr x | None \<Rightarrow> Inl KeyError)
      | _ \<Rightarrow> Inl TypeError)"

text \<open>\<^verbatim>\<open>k in v\<close> for a string \<open>k\<close>: a key of a dictionary, an element of a list, a
  substring of a string; the other values are not containers.\<close>

definition contains :: "string \<Rightarrow> json \<Rightarrow> error + bool" where
  "contains k v =
     (case v of
        JObj kvs \<Rightarrow> Inr (map_of kvs k \<noteq> None)
      | JArr xs \<Rightarrow> Inr (JStr k \<in> set xs)
      | JStr s \<Rightarrow> Inr (sublist k s)
      | _ \<Rightarrow> Inl TypeError)"

text \<open>\<^verbatim>\<open>v.get(k, d)\<close>: a method of dictionaries only.\<close>

definition get_default :: "json \<Rightarrow> string \<Rightarrow> json \<Rightarrow> error + json" where
  "get_default v k d =
     (case v of
        JObj kvs \<Rightarrow> Inr (case map_of kvs k of Some x \<Rightarrow> x | None \<Rightarrow> d)
      | _ \<Rightarrow> Inl AttributeError)"

text \<open>The items that \<^verbatim>\<open>for item in v\<close> visits: the elements of a list, the keys of a
  dictionary, the characters of a string.\<close>

definition iterate :: "json \<Rightarrow> error + json list" where
  "iterate v =
     (case v of
        JArr xs \<Rightarrow> Inr xs
      | JObj kvs \<Rightarrow> Inr (map (\<lambda>(k, x). JStr k) kvs)
      | JStr s \<Rightarrow> Inr (map (\<lambda>c. JStr [c]) s)
      | _ \<Rightarrow> Inl TypeError)"

text \<open>\<^verbatim>\<open>float(v)\<close>. How Python reads a string as a float is the parameter \<open>str_float\<close>
  (\<open>None\<close> where it raises \<^verbatim>\<open>ValueError\<close>), so that the results below hold for every
  such reading.\<close>

definition py_float :: "(string \<Rightarrow> real option) \<Rightarrow> json \<Rightarrow> error + real" where
  "py_float str_float v =
     (case v of
        JNum r \<Rightarrow> Inr r
      | JBool b \<Rightarrow> Inr (if b then 1 else 0)
      | JStr s \<Rightarrow> (case str_float s of Some r \<Rightarrow> Inr r | None \<Rightarrow> Inl ValueError)
      | _ \<Rightarrow> Inl TypeError)"

text \<open>\<^verbatim>\<open>s.lower()\<close> on ASCII letters.\<close>

definition lower_char :: "char \<Rightarrow> char" where
  "lower_char c =
     (if CHR ''A'' \<le> c \<and> c \<le> CHR ''Z'' then char_of (of_char c + (32::nat)) else c)"

definition lower :: "string \<Rightarrow> string" where
  "lower s = map lower_char s"

subsection \<open>The fetcher and its constants (lines 27-54)\<close>

text \<open>The value stored for a coin, \<^verbatim>\<open>{'price': ..., 'change_24h': ...}\<close>. Binance's values
  went through \<^verbatim>\<open>float\<close>; CoinGecko's are stored as decoded.\<close>

record quote =
  price :: json
  change_24h :: json

type_synonym prices = "(string \<times> quote) list"

record fetcher =
  cache :: "string \<rightharpoonup> prices"
  cache_time :: "string \<rightharpoonup> real"
  last_prices :: "string \<rightharpoonup> prices"

definition binance_symbols :: "(string \<times> string) list" where
  "binance_symbols =
     [(''BTC'', ''BTCUSDT''), (''ETH'', ''ETHUSDT''), (''SOL'', ''SOLUSDT''),
      (''BNB'', ''BNBUSDT''), (''XRP'', ''XRPUSDT''), (''DOGE'', ''DOGEUSDT'')]"

definition coingecko_mapping :: "(string \<times> string) list" where
  "coingecko_mapping =
     [(''BTC'', ''bitcoin''), (''ETH'', ''ethereum''), (''SOL'', ''solana''),
      (''BNB'', ''binancecoin''), (''XRP'', ''ripple''), (''DOGE'', ''dogecoin'')]"

definition cache_duration :: real where
  "cache_duration = 1"

text \<open>The state that \<^verbatim>\<open>__init__\<close> leaves.\<close>

definition init_fetcher :: fetcher where
  "init_fetcher = \<lparr>cache = Map.empty, cache_time = Map.empty, last_prices = Map.empty\<rparr>"

subsection \<open>The world outside\<close>

text \<open>
  What one call of \<^verbatim>\<open>get_current_prices\<close> meets: the two readings of \<^verbatim>\<open>time.time()\<close>
  (line 70, and line 112 or 125) and, for each upstream, what
  \<^verbatim>\<open>requests.get(...)\<close>, \<^verbatim>\<open>raise_for_status()\<close> and \<^verbatim>\<open>json()\<close> together produce for
  the query parameter sent: the decoded body, or the exception of a timeout, a
  non-success status or a body that is not JSON.
\<close>

record world =
  time_check :: real
  time_store :: real
  binance_api :: "string \<Rightarrow> error + json"
  coingecko_api :: "string \<Rightarrow> error + json"

datatype upstream = Binance | CoinGecko

text \<open>What a call hands back: the returned dictionary or the exception that escapes, the
  fetcher afterwards, and the HTTP requests sent, in order.\<close>

record outcome =
  result :: "error + prices"
  state :: fetcher
  requests :: "upstream list"

subsection \<open>The primary source (lines 76-101)\<close>

text \<open>Lines 95-101: the first coin whose Binance symbol equals \<^verbatim>\<open>item['symbol']\<close>.\<close>

fun find_coin :: "(string \<times> string) list \<Rightarrow> json \<Rightarrow> string option" where
  "find_coin [] symbol = None"
| "find_coin ((coin, binance_symbol) # rest) symbol =
     (if JStr binance_symbol = symbol then Some coin else find_coin rest symbol)"

text \<open>Lines 92-101, the loop over the items of the response.\<close>

fun parse_ticker :: "(string \<Rightarrow> real option) \<Rightarrow> json list \<Rightarrow> prices \<Rightarrow> error + prices" where
  "parse_ticker str_float [] prices = Inr prices"
| "parse_ticker str_float (item # items) prices =
     (case getitem item ''symbol'' of
        Inl e \<Rightarrow> Inl e
      | Inr symbol \<Rightarrow>
          (case find_coin binance_symbols symbol of
             None \<Rightarrow> parse_ticker str_float items prices
           | Some coin \<Rightarrow>
               (case getitem item ''lastPrice'' of
                  Inl e \<Rightarrow> Inl e
                | Inr lp \<Rightarrow>
                    (case py_float str_float lp of
                       Inl e \<Rightarrow> Inl e
                     | Inr p \<Rightarrow>
                         (case getitem item ''priceChangePercent'' of
                            Inl e \<Rightarrow> Inl e
                          | Inr pc \<Rightarrow>
                              (case py_float str_float pc of
                                 Inl e \<Rightarrow> Inl e
                               | Inr c \<Rightarrow>
                                   parse_ticker str_float items
                                     (AList.update coin
                                        \<lparr>price = JNum p, change_24h = JNum c\<rparr> prices)))))))"

text \<open>Line 81: \<^verbatim>\<open>'[' + ','.join([f'"{s}"' for s in symbols]) + ']'\<close>.\<close>

definition symbols_param :: "string list \<Rightarrow> string" where
  "symbols_param symbols =
     ''['' @ join '','' (map (\<lambda>s. [CHR 0x22] @ s @ [CHR 0x22]) symbols) @ '']''"

text \<open>Lines 77-101: the part of the \<^verbatim>\<open>try\<close> block that can raise. No request is sent
  when no requested coin has a Binance symbol.\<close>

definition binance_prices ::
  "(string \<Rightarrow> real option) \<Rightarrow> (string \<Rightarrow> error + json) \<Rightarrow> string list
   \<Rightarrow> (error + prices) \<times> upstream list" where
  "binance_prices str_float api coins =
     (let symbols = [the (map_of binance_symbols coin).
                       coin \<leftarrow> coins, map_of binance_symbols coin \<noteq> None]
      in if symbols \<noteq> []
         then ((case api (symbols_param symbols) of
                  Inl e \<Rightarrow> Inl e
                | Inr data \<Rightarrow>
                    (case iterate data of
                       Inl e \<Rightarrow> Inl e
                     | Inr items \<Rightarrow> parse_ticker str_float items [])),
               [Binance])
         else (Inr [], []))"

text \<open>Lines 104-108: each requested coin that is not in \<^verbatim>\<open>prices\<close> is taken from
  \<^verbatim>\<open>self._cache.get(cache_key, {})\<close>, here \<open>previous\<close>, when it is there.\<close>

fun backfill :: "prices \<Rightarrow> string list \<Rightarrow> prices \<Rightarrow> prices" where
  "backfill previous [] prices = prices"
| "backfill previous (coin # coins) prices =
     (if map_of prices coin = None
      then (case map_of previous coin of
              Some last_quote \<Rightarrow> backfill previous coins (AList.update coin last_quote prices)
            | None \<Rightarrow> backfill previous coins prices)
      else backfill previous coins prices)"

subsection \<open>The secondary source: \<^verbatim>\<open>_get_prices_from_coingecko\<close> (lines 136-165)\<close>

text \<open>\<^verbatim>\<open>self.coingecko_mapping.get(coin, coin.lower())\<close>.\<close>

definition coin_id :: "string \<Rightarrow> string" where
  "coin_id coin = (case map_of coingecko_mapping coin of Some i \<Rightarrow> i | None \<Rightarrow> lower coin)"

text \<open>Lines 154-160.\<close>

fun collect_quotes :: "json \<Rightarrow> string list \<Rightarrow> prices \<Rightarrow> error + prices" where
  "collect_quotes data [] prices = Inr prices"
| "collect_quotes data (coin # coins) prices =
     (case contains (coin_id coin) data of
        Inl e \<Rightarrow> Inl e
      | Inr False \<Rightarrow> collect_quotes data coins prices
      | Inr True \<Rightarrow>
          (case getitem data (coin_id coin) of
             Inl e \<Rightarrow> Inl e
           | Inr entry \<Rightarrow>
               (case getitem entry ''usd'' of
                  Inl e \<Rightarrow> Inl e
                | Inr usd \<Rightarrow>
                    (case get_default entry ''usd_24h_change'' (JNum 0) of
                       Inl e \<Rightarrow> Inl e
                     | Inr change \<Rightarrow>
                         collect_quotes data coins
                           (AList.update coin \<lparr>price = usd, change_24h = change\<rparr> prices)))))"

text \<open>Lines 139-162, the body of the \<^verbatim>\<open>try\<close>.\<close>

definition coingecko_prices :: "(string \<Rightarrow> error + json) \<Rightarrow> string list \<Rightarrow> error + prices" where
  "coingecko_prices api coins =
     (case api (join '','' (map coin_id coins)) of
        Inl e \<Rightarrow> Inl e
      | Inr data \<Rightarrow> collect_quotes data coins [])"

text \<open>Line 165: \<^verbatim>\<open>{coin: {'price': 0, 'change_24h': 0} for coin in coins}\<close>.\<close>

definition placeholder :: "string list \<Rightarrow> prices" where
  "placeholder coins =
     foldl (\<lambda>d coin. AList.update coin \<lparr>price = JNum 0, change_24h = JNum 0\<rparr> d) [] coins"

definition get_prices_from_coingecko :: "(string \<Rightarrow> error + json) \<Rightarrow> string list \<Rightarrow> prices" where
  "get_prices_from_coingecko api coins =
     (case coingecko_prices api coins of
        Inr prices \<Rightarrow> prices
      | Inl e \<Rightarrow> placeholder coins)"

subsection \<open>The orchestrator: \<^verbatim>\<open>get_current_prices\<close> (lines 56-134)\<close>

text \<open>Lines 111-113 and 124-126.\<close>

definition update_caches :: "fetcher \<Rightarrow> string \<Rightarrow> prices \<Rightarrow> real \<Rightarrow> fetcher" where
  "update_caches s key prices now =
     s\<lparr>cache := (cache s)(key \<mapsto> prices),
       cache_time := (cache_time s)(key \<mapsto> now),
       last_prices := (last_prices s)(key \<mapsto> prices)\<rparr>"

text \<open>Line 123: \<^verbatim>\<open>fallback and any(v.get('price', 0) for v in fallback.values())\<close>.\<close>

definition any_price :: "prices \<Rightarrow> bool" where
  "any_price fallback = (fallback \<noteq> [] \<and> list_ex (\<lambda>(coin, v). truthy (price v)) fallback)"

text \<open>Lines 73-134, what the call does once the cache did not answer.\<close>

definition fetch_prices ::
  "(string \<Rightarrow> real option) \<Rightarrow> world \<Rightarrow> fetcher \<Rightarrow> string list \<Rightarrow> string \<Rightarrow> outcome" where
  "fetch_prices str_float w s coins key =
     (case binance_prices str_float (binance_api w) coins of
        (Inr fetched, sent) \<Rightarrow>
          (let prices = backfill (case cache s key of None \<Rightarrow> [] | Some m \<Rightarrow> m) coins fetched
           in \<lparr>result = Inr prices,
               state = update_caches s key prices (time_store w),
               requests = sent\<rparr>)
      | (Inl e, sent) \<Rightarrow>
          (let fallback = get_prices_from_coingecko (coingecko_api w) coins
           in if any_price fallback
              then \<lparr>result = Inr fallback,
                    state = update_caches s key fallback (time_store w),
                    requests = sent @ [CoinGecko]\<rparr>
              else (case cache s key of
                      Some m \<Rightarrow> \<lparr>result = Inr m, state = s, requests = sent @ [CoinGecko]\<rparr>
                    | None \<Rightarrow>
                        \<lparr>result = Inr fallback, state = s, requests = sent @ [CoinGecko]\<rparr>)))"

text \<open>The whole function. Line 70 reads \<^verbatim>\<open>self._cache_time[cache_key]\<close> outside every
  \<^verbatim>\<open>try\<close>: a missing key there is a \<^verbatim>\<open>KeyError\<close> for the caller.\<close>

definition get_current_prices ::
  "(string \<Rightarrow> real option) \<Rightarrow> world \<Rightarrow> fetcher \<Rightarrow> string list \<Rightarrow> outcome" where
  "get_current_prices str_float w s coins =
     (let key = cache_key coins
      in case cache s key of
           Some m \<Rightarrow>
             (case cache_time s key of
                None \<Rightarrow> \<lparr>result = Inl KeyError, state = s, requests = []\<rparr>
              | Some t \<Rightarrow>
                  if time_check w - t < cache_duration
                  then \<lparr>result = Inr m, state = s, requests = []\<rparr>
                  else fetch_prices str_float w s coins key)
         | None \<Rightarrow> fetch_prices str_float w s coins key)"

text \<open>The fetchers that a program can hold: the fresh one, and the one left by any call.\<close>

inductive reachable :: "fetcher \<Rightarrow> bool" where
  init: "reachable init_fetcher"
| call: "reachable s \<Longrightarrow> reachable (state (get_current_prices str_float w s coins))"

subsection \<open>Example inputs\<close>

text \<open>A series with the given prices.\<close>

definition series :: "real list \<Rightarrow> price_point list" where
  "series ps = map (\<lambda>p. \<lparr>timestamp = 0, price_at = p\<rparr>) ps"

definition short_13 :: "price_point list" where
  "short_13 = series [1, 2, 3, 4, 5, 6, 7, 8, 9, 10, 11, 12, 13]"

definition rising_14 :: "price_point list" where
  "rising_14 = series [1, 2, 3, 4, 5, 6, 7, 8, 9, 10, 11, 12, 13, 14]"

definition from_zero_14 :: "price_point list" where
  "from_zero_14 = series [0, 1, 2, 3, 4, 5, 6, 7, 8, 9, 10, 11, 12, 13]"

text \<open>A reading of plain decimal numerals (\<^verbatim>\<open>51000.00\<close>, \<^verbatim>\<open>-1.500\<close>), the strings
  Binance sends, on which \<^verbatim>\<open>float\<close> agrees with it. The examples pass it for
  \<open>str_float\<close>.\<close>

definition digit :: "char \<Rightarrow> nat option" where
  "digit c =
     (if CHR ''0'' \<le> c \<and> c \<le> CHR ''9''
      then Some (of_char c - of_char (CHR ''0'')) else None)"

fun digits :: "string \<Rightarrow> nat \<Rightarrow> nat option" where
  "digits [] acc = Some acc"
| "digits (c # cs) acc = (case digit c of None \<Rightarrow> None | Some d \<Rightarrow> digits cs (10 * acc + d))"

definition unsigned :: "string \<Rightarrow> real option" where
  "unsigned s =
     (let whole = takeWhile (\<lambda>c. c \<noteq> CHR ''.'') s;
          rest = dropWhile (\<lambda>c. c \<noteq> CHR ''.'') s
      in case rest of
           [] \<Rightarrow> (if whole = [] then None else map_option real (digits whole 0))
         | dot # after \<Rightarrow>
             (if whole = [] \<and> after = [] then None
              else case (digits whole 0, digits after 0) of
                     (Some i, Some f) \<Rightarrow> Some (real i + real f / 10 ^ length after)
                   | _ \<Rightarrow> None))"

definition decimal :: "string \<Rightarrow> real option" where
  "decimal s = (case s of [] \<Rightarrow> None
                | c # t \<Rightarrow> if c = CHR ''-'' then map_option uminus (unsigned t) else unsigned s)"

text \<open>The request for BTC and ETH, a ticker item of Binance's response, two quotes, and
  a fetcher that cached both quotes at time 100.\<close>

definition coins_be :: "string list" where
  "coins_be = [''BTC'', ''ETH'']"

definition ticker :: "string \<Rightarrow> string \<Rightarrow> string \<Rightarrow> json" where
  "ticker symbol lp pc =
     JObj [(''symbol'', JStr symbol), (''lastPrice'', JStr lp), (''priceChangePercent'', JStr pc)]"

definition btc_50000 :: quote where
  "btc_50000 = \<lparr>price = JNum 50000, change_24h = JNum 2\<rparr>"

definition eth_3000 :: quote where
  "eth_3000 = \<lparr>price = JNum 3000, change_24h = JNum (- 1)\<rparr>"

definition warm :: fetcher where
  "warm = \<lparr>cache = [''prices_BTC_ETH'' \<mapsto> [(''BTC'', btc_50000), (''ETH'', eth_3000)]],
           cache_time = [''prices_BTC_ETH'' \<mapsto> 100],
           last_prices = [''prices_BTC_ETH'' \<mapsto> [(''BTC'', btc_50000), (''ETH'', eth_3000)]]\<rparr>"

text \<open>Worlds at time 105: Binance answers for BTC only; Binance reports a last price of
  zero for BTC; both upstreams are down.\<close>

definition partial_world :: world where
  "partial_world =
     \<lparr>time_check = 105, time_store = 106,
      binance_api = (\<lambda>p. Inr (JArr [ticker ''BTCUSDT'' ''51000.00'' ''2.500''])),
      coingecko_api = (\<lambda>p. Inl RequestException)\<rparr>"

definition zero_world :: world where
  "zero_world =
     \<lparr>time_check = 105, time_store = 106,
      binance_api = (\<lambda>p. Inr (JArr [ticker ''BTCUSDT'' ''0.00000000'' ''0.000'',
                                        ticker ''ETHUSDT'' ''3000.00'' ''-1.000''])),
      coingecko_api = (\<lambda>p. Inl RequestException)\<rparr>"

definition down_world :: world where
  "down_world =
     \<lparr>time_check = 105, time_store = 106,
      binance_api = (\<lambda>p. Inl RequestException),
      coingecko_api = (\<lambda>p. Inl RequestException)\<rparr>"

text \<open>A first call on a fresh fetcher at time 100, when Binance is down and CoinGecko
  answers, and a second call half a second later.\<close>

definition fallback_world :: world where
  "fallback_world =
     \<lparr>time_check = 100, time_store = 100,
      binance_api = (\<lambda>p. Inl RequestException),
      coingecko_api = (\<lambda>p. Inr (JObj
        [(''bitcoin'', JObj [(''usd'', JNum 50000), (''usd_24h_change'', JNum 2)]),
         (''ethereum'', JObj [(''usd'', JNum 3000), (''usd_24h_change'', JNum (- 1))])]))\<rparr>"

definition later_world :: world where
  "later_world =
     \<lparr>time_check = 100.5, time_store = 100.5,
      binance_api = (\<lambda>p. Inl RequestException),
      coingecko_api = (\<lambda>p. Inl RequestException)\<rparr>"

definition first_call :: outcome where
  "first_call = get_current_prices decimal fallback_world init_fetcher coins_be"

definition second_call :: outcome where
  "second_call = get_current_prices decimal later_world (state first_call) coins_be"

section \<open>Properties\<close>

subsection \<open>Indicators\<close>

lemma gains_nonneg: "\<forall>g \<in> set (gains prices). 0 \<le> g"
  by (auto simp: gains_def)

lemma losses_nonneg: "\<forall>l \<in> set (losses prices). 0 \<le> l"
  by (auto simp: losses_def)

lemma set_tail_slice: "set (tail_slice n xs) \<subseteq> set xs"
  by (simp add: tail_slice_def set_drop_subset)

lemma sum_tail_slice_nonneg:
  assumes "\<forall>x \<in> set xs. (0::real) \<le> x"
  shows "0 \<le> sum_list (tail_slice n xs)"
proof (rule sum_list_nonneg)
  fix x assume "x \<in> set (tail_slice n xs)"
  then have "x \<in> set xs" using set_tail_slice [of n xs] by (rule subsetD [rotated])
  with assms show "0 \<le> x" by (rule bspec)
qed

lemma avg_gain_nonneg: "0 \<le> avg_gain prices"
  using sum_tail_slice_nonneg [OF gains_nonneg, of 14 prices]
  by (simp add: avg_gain_def)

lemma avg_loss_nonneg: "0 \<le> avg_loss prices"
  using sum_tail_slice_nonneg [OF losses_nonneg, of 14 prices]
  by (simp add: avg_loss_def)

text \<open>Neither division of the RSI can meet a zero divisor: the first is guarded, and the
  second divides by one plus a ratio of two non-negative numbers.\<close>

lemma rsi_returns: "\<exists>r. rsi prices = Inr r"
proof (cases "avg_loss prices = 0")
  case True
  then show ?thesis by (simp add: rsi_def)
next
  case False
  have "0 \<le> avg_gain prices / avg_loss prices"
    using avg_gain_nonneg [of prices] avg_loss_nonneg [of prices] by simp
  then have "1 + avg_gain prices / avg_loss prices \<noteq> 0" by linarith
  with False show ?thesis by (simp add: rsi_def py_div_def)
qed

lemma change_7d_eq:
  "change_7d prices =
     Inr (if prices ! 0 > 0 then (last prices - prices ! 0) / prices ! 0 * 100 else 0)"
  by (simp add: change_7d_def py_div_def)

text \<open>On fourteen points or more the function returns all five indicators.\<close>

lemma calculate_returns:
  assumes "14 \<le> length historical"
  shows "\<exists>r. rsi (map price_at historical) = Inr r \<and>
    calculate_technical_indicators historical =
      Inr (Some \<lparr>sma_7 = sum_list (tail_slice 7 (map price_at historical)) / 7,
                 sma_14 = sum_list (tail_slice 14 (map price_at historical)) / 14,
                 rsi_14 = r,
                 current_price = price_at (last historical),
                 price_change_7d =
                   (if price_at (hd historical) > 0
                    then (price_at (last historical) - price_at (hd historical))
                         / price_at (hd historical) * 100
                    else 0)\<rparr>)"
proof -
  from assms have ne: "historical \<noteq> []" by auto
  obtain r where r: "rsi (map price_at historical) = Inr r"
    using rsi_returns by blast
  have l: "last (map price_at historical) = price_at (last historical)"
    using ne by (simp add: last_map)
  have h: "map price_at historical ! 0 = price_at (hd historical)"
    using ne by (simp add: hd_conv_nth)
  show ?thesis
    using assms ne r
    by (simp add: calculate_technical_indicators_def Let_def change_7d_eq l h)
qed

lemma sorted_losses_zero:
  assumes "sorted prices"
  shows "\<forall>l \<in> set (losses prices). l = 0"
proof -
  have "\<forall>c \<in> set (changes prices). 0 \<le> c"
  proof
    fix c assume "c \<in> set (changes prices)"
    then obtain i where i: "1 \<le> i" "i < length prices" and c: "c = prices ! i - prices ! (i - 1)"
      by (auto simp: changes_def)
    have "prices ! (i - 1) \<le> prices ! i"
      using assms i by (intro sorted_nth_mono) auto
    with c show "0 \<le> c" by simp
  qed
  then show ?thesis by (auto simp: losses_def)
qed

lemma sum_list_all_zero: "\<forall>x \<in> set xs. x = (0::real) \<Longrightarrow> sum_list xs = 0"
  by (induction xs) simp_all

lemma sorted_avg_loss: "sorted prices \<Longrightarrow> avg_loss prices = 0"
proof -
  assume "sorted prices"
  then have "\<forall>l \<in> set (tail_slice 14 (losses prices)). l = 0"
    using sorted_losses_zero [of prices] set_tail_slice [of 14 "losses prices"] by auto
  then have "sum_list (tail_slice 14 (losses prices)) = 0"
    by (rule sum_list_all_zero)
  then show ?thesis by (simp add: avg_loss_def)
qed

text \<open>The successive differences of a list written out.\<close>

lemma changes_Nil: "changes [] = []" and changes_single: "changes [a] = []"
  by (simp_all add: changes_def)

lemma upt_one_shift: "[1..<Suc (Suc n)] = 1 # map Suc [1..<Suc n]"
proof -
  have "[1..<Suc (Suc n)] = 1 # [Suc 1..<Suc (Suc n)]"
    by (rule upt_conv_Cons) simp
  also have "[Suc 1..<Suc (Suc n)] = map Suc [1..<Suc n]"
    by (rule map_Suc_upt [symmetric])
  finally show ?thesis .
qed

lemma changes_Cons2: "changes (a # b # xs) = (b - a) # changes (b # xs)"
proof -
  have m: "map (\<lambda>i. (a # b # xs) ! Suc i - (a # b # xs) ! (Suc i - 1)) [1..<Suc (length xs)]
        = map (\<lambda>i. (b # xs) ! i - (b # xs) ! (i - 1)) [1..<Suc (length xs)]"
    by (rule map_cong) (auto simp: nth_Cons')
  have "changes (a # b # xs)
        = map (\<lambda>i. (a # b # xs) ! i - (a # b # xs) ! (i - 1)) (1 # map Suc [1..<Suc (length xs)])"
    unfolding changes_def using upt_one_shift [of "length xs"] by simp
  also have "\<dots> = (b - a) # map (\<lambda>i. (a # b # xs) ! Suc i - (a # b # xs) ! (Suc i - 1)) [1..<Suc (length xs)]"
    by (simp add: comp_def del: upt_Suc)
  also have "\<dots> = (b - a) # changes (b # xs)"
    unfolding m changes_def by simp
  finally show ?thesis .
qed

lemmas changes_eval = changes_Nil changes_single changes_Cons2

text \<open>
  C6. On a series of fewer than 14 points, the empty one included, the function computes
  nothing: it returns the empty dictionary and no indicator.
\<close>

theorem insufficient_data:
  "length historical < 14 \<Longrightarrow> calculate_technical_indicators historical = Inr None"
  by (simp add: calculate_technical_indicators_def)

theorem insufficient_data_witness:
  "length short_13 < 14 \<and> calculate_technical_indicators short_13 = Inr None"
proof -
  have h: "length short_13 < 14" by (simp add: short_13_def series_def)
  show ?thesis using h insufficient_data [OF h] by simp
qed

text \<open>
  C7. On a series of at least 14 points whose average loss is zero, as it is on every
  series that never falls, the function returns indicators (no division by zero is
  raised) and the RSI among them is exactly 100.
\<close>

theorem rsi_without_losses:
  assumes "14 \<le> length historical"
    and "avg_loss (map price_at historical) = 0 \<or> sorted (map price_at historical)"
  shows "\<exists>ind. calculate_technical_indicators historical = Inr (Some ind) \<and> rsi_14 ind = 100"
proof -
  from assms(2) have z: "avg_loss (map price_at historical) = 0"
    using sorted_avg_loss [of "map price_at historical"] by auto
  then have "rsi (map price_at historical) = Inr 100"
    by (simp add: rsi_def)
  with calculate_returns [OF assms(1)] show ?thesis by auto
qed

theorem rsi_without_losses_witness:
  "14 \<le> length rising_14 \<and> sorted (map price_at rising_14)
   \<and> (\<exists>ind. calculate_technical_indicators rising_14 = Inr (Some ind) \<and> rsi_14 ind = 100)"
proof -
  have h1: "14 \<le> length rising_14" by (simp add: rising_14_def series_def)
  have h2: "sorted (map price_at rising_14)" by (simp add: rising_14_def series_def)
  show ?thesis using h1 h2 rsi_without_losses [OF h1 disjI2 [OF h2]] by simp
qed

text \<open>
  C8, on the 14-point series 1, 2, ..., 14: it has 13 deltas, each a gain of 1, so the
  mean of the gains in the trailing window is 1, while \<^verbatim>\<open>avg_gain\<close> is their sum divided
  by 14.
\<close>

theorem avg_gain_on_14_points:
  "length rising_14 = 14
   \<and> length (tail_slice 14 (gains (map price_at rising_14))) = 13
   \<and> mean (tail_slice 14 (gains (map price_at rising_14))) = 1
   \<and> avg_gain (map price_at rising_14) = 13 / 14"
  by (simp add: rising_14_def series_def avg_gain_def mean_def gains_def changes_eval
      tail_slice_def)

text \<open>From 15 points on the window holds 14 deltas and the two averages are means.\<close>

lemma averages_are_means_from_15:
  assumes "15 \<le> length prices"
  shows "avg_gain prices = mean (tail_slice 14 (gains prices))"
    and "avg_loss prices = mean (tail_slice 14 (losses prices))"
proof -
  have "length (changes prices) = length prices - 1"
    by (simp add: changes_def)
  with assms have "length (tail_slice 14 (gains prices)) = 14"
    and "length (tail_slice 14 (losses prices)) = 14"
    and "gains prices \<noteq> []" and "losses prices \<noteq> []"
    by (auto simp: tail_slice_def gains_def losses_def)
  then show "avg_gain prices = mean (tail_slice 14 (gains prices))"
    and "avg_loss prices = mean (tail_slice 14 (losses prices))"
    by (simp_all add: avg_gain_def avg_loss_def mean_def)
qed

text \<open>
  C9. On a series of at least 14 points the function returns indicators (no division by
  zero is raised); the 7-day change among them is the percentage change from the first
  point to the last when the first price is positive, and 0 otherwise, so 0 when the first
  price is 0.
\<close>

theorem guarded_change_7d:
  assumes "14 \<le> length historical"
  shows "\<exists>ind. calculate_technical_indicators historical = Inr (Some ind)
           \<and> price_change_7d ind =
               (if price_at (hd historical) > 0
                then (price_at (last historical) - price_at (hd historical))
                     / price_at (hd historical) * 100
                else 0)"
  using calculate_returns [OF assms] by auto

theorem guarded_change_7d_witness:
  "14 \<le> length from_zero_14 \<and> price_at (hd from_zero_14) = 0
   \<and> (\<exists>ind. calculate_technical_indicators from_zero_14 = Inr (Some ind)
          \<and> price_change_7d ind = 0)
   \<and> 14 \<le> length rising_14 \<and> price_at (hd rising_14) = 1 \<and> price_at (last rising_14) = 14
   \<and> (\<exists>ind. calculate_technical_indicators rising_14 = Inr (Some ind)
          \<and> price_change_7d ind = 1300)"
proof -
  have h: "14 \<le> length from_zero_14" by (simp add: from_zero_14_def series_def)
  have z: "price_at (hd from_zero_14) = 0" by (simp add: from_zero_14_def series_def)
  have h': "14 \<le> length rising_14" by (simp add: rising_14_def series_def)
  have f: "price_at (hd rising_14) = 1" and l: "price_at (last rising_14) = 14"
    by (simp_all add: rising_14_def series_def)
  show ?thesis
    using h z guarded_change_7d [OF h] h' f l guarded_change_7d [OF h'] by simp
qed

subsection \<open>Fingerprint\<close>

text \<open>
  C5. Two coin lists that hold the same coins in a different order (one is a permutation
  of the other) get the same cache key.
\<close>

theorem cache_key_permutation:
  "mset coins1 = mset coins2 \<Longrightarrow> cache_key coins1 = cache_key coins2"
proof -
  assume "mset coins1 = mset coins2"
  then have "sort coins1 = sort coins2"
    by (intro properties_for_sort) simp_all
  then show ?thesis
    by (simp add: cache_key_def)
qed

theorem cache_key_permutation_witness:
  "mset [''ETH'', ''BTC''] = mset [''BTC'', ''ETH'']
   \<and> cache_key [''ETH'', ''BTC''] = cache_key [''BTC'', ''ETH'']
   \<and> cache_key [''ETH'', ''BTC''] = ''prices_BTC_ETH''"
proof -
  have h: "mset [''ETH'', ''BTC''] = mset [''BTC'', ''ETH'']" by simp
  have k: "cache_key [''BTC'', ''ETH''] = ''prices_BTC_ETH''"
    by (simp add: cache_key_def less_eq_char_def less_char_def)
  show ?thesis using h cache_key_permutation [OF h] k by simp
qed

subsection \<open>The orchestrator\<close>

text \<open>What the backfill loop leaves for each coin.\<close>

lemma map_of_backfill:
  "map_of (backfill previous coins prices) coin =
     (case map_of prices coin of
        Some q \<Rightarrow> Some q
      | None \<Rightarrow> if coin \<in> set coins then map_of previous coin else None)"
proof (induction coins arbitrary: prices)
  case Nil
  then show ?case by (simp split: option.split)
next
  case (Cons c coins)
  show ?case
  proof (cases "map_of prices c")
    case (Some q)
    with Cons.IH [of prices] show ?thesis
      by (auto split: option.splits)
  next
    case None
    show ?thesis
    proof (cases "map_of previous c")
      case pn: None
      with None Cons.IH [of prices] show ?thesis
        by (auto split: option.splits)
    next
      case (Some l)
      with None Cons.IH [of "AList.update c l prices"] show ?thesis
        by (auto simp: update_conv' split: option.splits if_splits)
    qed
  qed
qed

lemma binance_sent:
  "snd (binance_prices str_float api coins) = [] \<or> snd (binance_prices str_float api coins) = [Binance]"
  by (simp add: binance_prices_def Let_def)

lemma binance_failed_sent:
  "fst (binance_prices str_float api coins) = Inl e \<Longrightarrow>
   snd (binance_prices str_float api coins) = [Binance]"
  by (simp add: binance_prices_def Let_def split: if_splits)

lemma set_update_cases:
  "(c, q) \<in> set (AList.update k v al) \<Longrightarrow> (c, q) = (k, v) \<or> (c, q) \<in> set al"
  by (induction al) (auto split: if_splits)

lemma placeholder_values:
  "(c, q) \<in> set (foldl (\<lambda>d coin. AList.update coin z d) acc coins) \<Longrightarrow>
   q = z \<or> (c, q) \<in> set acc"
proof (induction coins arbitrary: acc)
  case Nil
  then show ?case by simp
next
  case (Cons a coins)
  from Cons.IH [of "AList.update a z acc"] Cons.prems
  have "q = z \<or> (c, q) \<in> set (AList.update a z acc)" by simp
  then show ?case using set_update_cases [of c q a z acc] by auto
qed

lemma placeholder_no_price: "\<not> any_price (placeholder coins)"
proof -
  have "\<And>c q. (c, q) \<in> set (placeholder coins) \<Longrightarrow> \<not> truthy (price q)"
  proof -
    fix c q assume "(c, q) \<in> set (placeholder coins)"
    then have "q = \<lparr>price = JNum 0, change_24h = JNum 0\<rparr>"
      unfolding placeholder_def
      using placeholder_values [of c q "\<lparr>price = JNum 0, change_24h = JNum 0\<rparr>" "[]" coins]
      by simp
    then show "\<not> truthy (price q)" by simp
  qed
  then show ?thesis
    by (auto simp: any_price_def list_ex_iff)
qed

lemma coingecko_failed_no_price:
  "coingecko_prices api coins = Inl e \<Longrightarrow> \<not> any_price (get_prices_from_coingecko api coins)"
  by (simp add: get_prices_from_coingecko_def placeholder_no_price)

lemma any_price_fetched:
  "any_price (get_prices_from_coingecko api coins) \<Longrightarrow>
   coingecko_prices api coins = Inr (get_prices_from_coingecko api coins)"
  using placeholder_no_price [of coins]
  by (auto simp: get_prices_from_coingecko_def split: sum.splits)

text \<open>The three ways a fetch ends.\<close>

lemma fetch_prices_cases:
  obtains
    (primary) fetched sent where
      "binance_prices str_float (binance_api w) coins = (Inr fetched, sent)"
      "fetch_prices str_float w s coins key =
         \<lparr>result = Inr (backfill (case cache s key of None \<Rightarrow> [] | Some m \<Rightarrow> m) coins fetched),
          state = update_caches s key
                    (backfill (case cache s key of None \<Rightarrow> [] | Some m \<Rightarrow> m) coins fetched)
                    (time_store w),
          requests = sent\<rparr>"
  | (secondary) e where
      "binance_prices str_float (binance_api w) coins = (Inl e, [Binance])"
      "any_price (get_prices_from_coingecko (coingecko_api w) coins)"
      "fetch_prices str_float w s coins key =
         \<lparr>result = Inr (get_prices_from_coingecko (coingecko_api w) coins),
          state = update_caches s key (get_prices_from_coingecko (coingecko_api w) coins)
                    (time_store w),
          requests = [Binance, CoinGecko]\<rparr>"
  | (neither) e where
      "binance_prices str_float (binance_api w) coins = (Inl e, [Binance])"
      "\<not> any_price (get_prices_from_coingecko (coingecko_api w) coins)"
      "fetch_prices str_float w s coins key =
         \<lparr>result = Inr (case cache s key of
                          Some m \<Rightarrow> m
                        | None \<Rightarrow> get_prices_from_coingecko (coingecko_api w) coins),
          state = s,
          requests = [Binance, CoinGecko]\<rparr>"
proof (cases "binance_prices str_float (binance_api w) coins")
  case (Pair r sent)
  show thesis
  proof (cases r)
    case (Inr fetched)
    with Pair show thesis
      by (intro primary [of fetched sent]) (simp_all add: fetch_prices_def Let_def)
  next
    case (Inl e)
    with Pair binance_failed_sent [of str_float "binance_api w" coins e]
    have b: "binance_prices str_float (binance_api w) coins = (Inl e, [Binance])" by simp
    show thesis
    proof (cases "any_price (get_prices_from_coingecko (coingecko_api w) coins)")
      case True
      with b show thesis
        by (intro secondary [of e]) (simp_all add: fetch_prices_def Let_def)
    next
      case False
      with b show thesis
        by (intro neither [of e]) (simp_all add: fetch_prices_def Let_def split: option.splits)
    qed
  qed
qed

lemma stamped_update:
  "dom (cache s) \<subseteq> dom (cache_time s) \<Longrightarrow>
   dom (cache (update_caches s key prices now)) \<subseteq> dom (cache_time (update_caches s key prices now))"
  by (auto simp: update_caches_def)

lemma stamped_fetch:
  assumes "dom (cache s) \<subseteq> dom (cache_time s)"
  shows "dom (cache (state (fetch_prices str_float w s coins key)))
         \<subseteq> dom (cache_time (state (fetch_prices str_float w s coins key)))"
proof (cases rule: fetch_prices_cases [of str_float w coins s key])
  case (primary fetched sent)
  then show ?thesis using stamped_update [OF assms] by simp
next
  case (secondary e)
  then show ?thesis using stamped_update [OF assms] by simp
next
  case (neither e)
  then show ?thesis using assms by simp
qed

lemma stamped_call:
  assumes "dom (cache s) \<subseteq> dom (cache_time s)"
  shows "dom (cache (state (get_current_prices str_float w s coins)))
         \<subseteq> dom (cache_time (state (get_current_prices str_float w s coins)))"
  using assms stamped_fetch [OF assms, of str_float w coins "cache_key coins"]
  by (simp add: get_current_prices_def Let_def split: option.splits)

lemma stamped_init: "dom (cache init_fetcher) \<subseteq> dom (cache_time init_fetcher)"
  by (simp add: init_fetcher_def)

lemma reachable_stamped: "reachable s \<Longrightarrow> dom (cache s) \<subseteq> dom (cache_time s)"
  by (induction rule: reachable.induct) (simp_all add: stamped_init stamped_call)

lemma fetch_returns: "\<exists>prices. result (fetch_prices str_float w s coins key) = Inr prices"
  by (cases rule: fetch_prices_cases [of str_float w coins s key]) simp_all

lemma fetch_requests:
  "requests (fetch_prices str_float w s coins key) \<in> {[], [Binance], [Binance, CoinGecko]}"
proof (cases rule: fetch_prices_cases [of str_float w coins s key])
  case (primary fetched sent)
  then show ?thesis using binance_sent [of str_float "binance_api w" coins] by auto
qed simp_all

lemma fetch_two_requests:
  "requests (fetch_prices str_float w s coins key) = [Binance, CoinGecko] \<Longrightarrow>
   \<exists>e. fst (binance_prices str_float (binance_api w) coins) = Inl e"
proof (cases rule: fetch_prices_cases [of str_float w coins s key])
  case (primary fetched sent)
  assume "requests (fetch_prices str_float w s coins key) = [Binance, CoinGecko]"
  with primary binance_sent [of str_float "binance_api w" coins] show ?thesis by auto
qed simp_all

lemma call_requests:
  "requests (get_current_prices str_float w s coins) \<in> {[], [Binance], [Binance, CoinGecko]}"
  using fetch_requests [of str_float w s coins "cache_key coins"]
  by (simp add: get_current_prices_def Let_def split: option.splits)

lemma call_two_requests:
  "requests (get_current_prices str_float w s coins) = [Binance, CoinGecko] \<Longrightarrow>
   \<exists>e. fst (binance_prices str_float (binance_api w) coins) = Inl e"
  using fetch_two_requests [of str_float w s coins "cache_key coins"]
  by (simp add: get_current_prices_def Let_def split: option.splits if_splits)

lemma fresh_call:
  assumes "cache s (cache_key coins) = Some m"
    and "cache_time s (cache_key coins) = Some t"
    and "time_check w - t < cache_duration"
  shows "get_current_prices str_float w s coins = \<lparr>result = Inr m, state = s, requests = []\<rparr>"
  using assms by (simp add: get_current_prices_def Let_def)

lemma stale_call:
  assumes "cache s (cache_key coins) = None
           \<or> (\<exists>t. cache_time s (cache_key coins) = Some t \<and> \<not> time_check w - t < cache_duration)"
  shows "get_current_prices str_float w s coins = fetch_prices str_float w s coins (cache_key coins)"
  using assms by (auto simp: get_current_prices_def Let_def split: option.splits)

subsection \<open>The example runs\<close>

lemma key_be: "cache_key coins_be = ''prices_BTC_ETH''"
  by (simp add: cache_key_def coins_be_def less_eq_char_def less_char_def)

lemma binance_partial:
  "binance_prices decimal (binance_api partial_world) coins_be
   = (Inr [(''BTC'', \<lparr>price = JNum 51000, change_24h = JNum (5 / 2)\<rparr>)], [Binance])"
  by (simp add: binance_prices_def coins_be_def binance_symbols_def partial_world_def
      iterate_def ticker_def getitem_def py_float_def decimal_def unsigned_def digit_def
      less_eq_char_def)

lemmas example_defs =
  coins_be_def binance_symbols_def coingecko_mapping_def iterate_def ticker_def getitem_def
  py_float_def decimal_def unsigned_def digit_def less_eq_char_def contains_def
  get_default_def coin_id_def
  btc_50000_def eth_3000_def

lemma warm_cache:
  "cache warm (cache_key coins_be) = Some [(''BTC'', btc_50000), (''ETH'', eth_3000)]"
  and warm_time: "cache_time warm (cache_key coins_be) = Some 100"
  by (simp_all add: key_be warm_def)

lemma binance_zero:
  "binance_prices decimal (binance_api zero_world) coins_be
   = (Inr [(''BTC'', \<lparr>price = JNum 0, change_24h = JNum 0\<rparr>), (''ETH'', eth_3000)], [Binance])"
  by (simp add: binance_prices_def zero_world_def example_defs)

lemma binance_down:
  "binance_prices str_float (\<lambda>p. Inl RequestException) coins_be = (Inl RequestException, [Binance])"
  by (simp add: binance_prices_def example_defs)

lemma coingecko_down:
  "coingecko_prices (\<lambda>p. Inl RequestException) coins = Inl RequestException"
  by (simp add: coingecko_prices_def)

lemma coingecko_fallback:
  "coingecko_prices (coingecko_api fallback_world) coins_be
   = Inr [(''BTC'', btc_50000), (''ETH'', eth_3000)]"
  by (simp add: coingecko_prices_def fallback_world_def example_defs)

lemma placeholder_be:
  "placeholder coins_be = [(''BTC'', \<lparr>price = JNum 0, change_24h = JNum 0\<rparr>),
                           (''ETH'', \<lparr>price = JNum 0, change_24h = JNum 0\<rparr>)]"
  by (simp add: placeholder_def coins_be_def)

lemma run_partial:
  "get_current_prices decimal partial_world warm coins_be
   = \<lparr>result = Inr [(''BTC'', \<lparr>price = JNum 51000, change_24h = JNum (5 / 2)\<rparr>),
                    (''ETH'', eth_3000)],
      state = update_caches warm ''prices_BTC_ETH''
                [(''BTC'', \<lparr>price = JNum 51000, change_24h = JNum (5 / 2)\<rparr>),
                 (''ETH'', eth_3000)] 106,
      requests = [Binance]\<rparr>"
proof -
  have t: "time_check partial_world = 105" "time_store partial_world = 106"
    by (simp_all add: partial_world_def)
  have b: "backfill [(''BTC'', btc_50000), (''ETH'', eth_3000)] coins_be
             [(''BTC'', \<lparr>price = JNum 51000, change_24h = JNum (5 / 2)\<rparr>)]
           = [(''BTC'', \<lparr>price = JNum 51000, change_24h = JNum (5 / 2)\<rparr>), (''ETH'', eth_3000)]"
    by (simp add: coins_be_def)
  show ?thesis
    using warm_cache warm_time
    by (simp add: get_current_prices_def fetch_prices_def binance_partial key_be t
        cache_duration_def Let_def b)
qed

lemma run_zero:
  "get_current_prices decimal zero_world warm coins_be
   = \<lparr>result = Inr [(''BTC'', \<lparr>price = JNum 0, change_24h = JNum 0\<rparr>), (''ETH'', eth_3000)],
      state = update_caches warm ''prices_BTC_ETH''
                [(''BTC'', \<lparr>price = JNum 0, change_24h = JNum 0\<rparr>), (''ETH'', eth_3000)] 106,
      requests = [Binance]\<rparr>"
proof -
  have t: "time_check zero_world = 105" "time_store zero_world = 106"
    by (simp_all add: zero_world_def)
  have b: "backfill [(''BTC'', btc_50000), (''ETH'', eth_3000)] coins_be
             [(''BTC'', \<lparr>price = JNum 0, change_24h = JNum 0\<rparr>), (''ETH'', eth_3000)]
           = [(''BTC'', \<lparr>price = JNum 0, change_24h = JNum 0\<rparr>), (''ETH'', eth_3000)]"
    by (simp add: coins_be_def)
  show ?thesis
    using warm_cache warm_time
    by (simp add: get_current_prices_def fetch_prices_def binance_zero key_be t
        cache_duration_def Let_def b)
qed

lemma run_down_warm:
  "get_current_prices decimal down_world warm coins_be
   = \<lparr>result = Inr [(''BTC'', btc_50000), (''ETH'', eth_3000)], state = warm,
      requests = [Binance, CoinGecko]\<rparr>"
proof -
  have t: "time_check down_world = 105" "binance_api down_world = (\<lambda>p. Inl RequestException)"
    "coingecko_api down_world = (\<lambda>p. Inl RequestException)"
    by (simp_all add: down_world_def)
  show ?thesis
    using warm_cache warm_time placeholder_no_price [of coins_be]
    by (simp add: get_current_prices_def fetch_prices_def binance_down key_be t
        cache_duration_def get_prices_from_coingecko_def coingecko_down Let_def)
qed

lemma run_down_init:
  "get_current_prices decimal down_world init_fetcher coins_be
   = \<lparr>result = Inr [(''BTC'', \<lparr>price = JNum 0, change_24h = JNum 0\<rparr>),
                    (''ETH'', \<lparr>price = JNum 0, change_24h = JNum 0\<rparr>)],
      state = init_fetcher, requests = [Binance, CoinGecko]\<rparr>"
proof -
  have t: "binance_api down_world = (\<lambda>p. Inl RequestException)"
    "coingecko_api down_world = (\<lambda>p. Inl RequestException)"
    by (simp_all add: down_world_def)
  have c: "cache init_fetcher ''prices_BTC_ETH'' = None" by (simp add: init_fetcher_def)
  show ?thesis
    using placeholder_no_price [of coins_be] c
    by (simp add: get_current_prices_def fetch_prices_def binance_down key_be t
        get_prices_from_coingecko_def coingecko_down placeholder_be Let_def)
qed

lemma run_first:
  "first_call
   = \<lparr>result = Inr [(''BTC'', btc_50000), (''ETH'', eth_3000)],
      state = update_caches init_fetcher ''prices_BTC_ETH''
                [(''BTC'', btc_50000), (''ETH'', eth_3000)] 100,
      requests = [Binance, CoinGecko]\<rparr>"
proof -
  have t: "binance_api fallback_world = (\<lambda>p. Inl RequestException)"
    "time_store fallback_world = 100"
    by (simp_all add: fallback_world_def)
  have c: "cache init_fetcher ''prices_BTC_ETH'' = None" by (simp add: init_fetcher_def)
  have a: "any_price [(''BTC'', btc_50000), (''ETH'', eth_3000)]"
    by (simp add: any_price_def btc_50000_def)
  show ?thesis
    using c a
    by (simp add: first_call_def get_current_prices_def fetch_prices_def binance_down key_be t
        get_prices_from_coingecko_def coingecko_fallback Let_def)
qed

lemma first_cache:
  "cache (state first_call) (cache_key coins_be) = Some [(''BTC'', btc_50000), (''ETH'', eth_3000)]"
  and first_time: "cache_time (state first_call) (cache_key coins_be) = Some 100"
  by (simp_all add: run_first key_be update_caches_def)

lemma run_second:
  "second_call
   = \<lparr>result = Inr [(''BTC'', btc_50000), (''ETH'', eth_3000)], state = state first_call,
      requests = []\<rparr>"
  unfolding second_call_def
  by (rule fresh_call [OF first_cache first_time]) (simp add: later_world_def cache_duration_def)

text \<open>A call for BTC alone, whose key is not the one the fetcher has cached.\<close>

lemma key_btc: "cache_key [''BTC''] = ''prices_BTC''"
  by (simp add: cache_key_def)

lemma binance_down_btc:
  "binance_prices str_float (\<lambda>p. Inl RequestException) [''BTC'']
   = (Inl RequestException, [Binance])"
  by (simp add: binance_prices_def binance_symbols_def)

lemma run_down_other_key:
  "get_current_prices decimal down_world warm [''BTC'']
   = \<lparr>result = Inr [(''BTC'', \<lparr>price = JNum 0, change_24h = JNum 0\<rparr>)],
      state = warm, requests = [Binance, CoinGecko]\<rparr>"
proof -
  have t: "binance_api down_world = (\<lambda>p. Inl RequestException)"
    "coingecko_api down_world = (\<lambda>p. Inl RequestException)"
    by (simp_all add: down_world_def)
  have c: "cache warm ''prices_BTC'' = None" by (simp add: warm_def)
  have p: "placeholder [''BTC''] = [(''BTC'', \<lparr>price = JNum 0, change_24h = JNum 0\<rparr>)]"
    by (simp add: placeholder_def)
  show ?thesis
    using placeholder_no_price [of "[''BTC'']"] c
    by (simp add: get_current_prices_def fetch_prices_def binance_down_btc key_btc t
        get_prices_from_coingecko_def coingecko_down p Let_def)
qed

subsection \<open>The claims about the cache\<close>

text \<open>
  C1, as the code has it. The cache is kept by fingerprint, so what is kept for a coin is
  kept for calls with that fingerprint only. Once the cache entry of a fingerprint holds a
  quote for a coin, a call for that fingerprint never deletes the entry, and puts a
  different quote for the coin into it only when an upstream response carried that quote:
  Binance's parsed
  response, or, after Binance failed, a CoinGecko response in which some coin has a
  non-zero price. The zero placeholders made up when CoinGecko fails are never stored over
  an entry. In particular, when Binance fails and CoinGecko fails (or returns zero prices
  only), the call leaves the fetcher as it was and returns the cached entry, hence the
  cached quote of the coin.
\<close>

theorem never_clear:
  assumes "cache s (cache_key coins) = Some m"
    and "cache_time s (cache_key coins) = Some t"
    and "map_of m X = Some q"
  shows "(\<exists>m'. cache (state (get_current_prices str_float w s coins)) (cache_key coins) = Some m')
    \<and> (\<forall>m' q'. cache (state (get_current_prices str_float w s coins)) (cache_key coins) = Some m'
            \<and> map_of m' X = Some q' \<and> q' \<noteq> q \<longrightarrow>
          (\<exists>fetched. fst (binance_prices str_float (binance_api w) coins) = Inr fetched
              \<and> map_of fetched X = Some q')
          \<or> (\<exists>e fetched. fst (binance_prices str_float (binance_api w) coins) = Inl e
              \<and> coingecko_prices (coingecko_api w) coins = Inr fetched
              \<and> any_price fetched \<and> map_of fetched X = Some q'))
    \<and> ((\<exists>e. fst (binance_prices str_float (binance_api w) coins) = Inl e)
         \<and> ((\<exists>e. coingecko_prices (coingecko_api w) coins = Inl e)
            \<or> \<not> any_price (get_prices_from_coingecko (coingecko_api w) coins)) \<longrightarrow>
        result (get_current_prices str_float w s coins) = Inr m
        \<and> state (get_current_prices str_float w s coins) = s)"
proof (cases "time_check w - t < cache_duration")
  case True
  have "get_current_prices str_float w s coins = \<lparr>result = Inr m, state = s, requests = []\<rparr>"
    using assms(1,2) True by (rule fresh_call)
  then show ?thesis using assms by simp
next
  case False
  have c: "get_current_prices str_float w s coins
           = fetch_prices str_float w s coins (cache_key coins)"
    using assms(2) False by (intro stale_call) simp
  show ?thesis
  proof (cases rule: fetch_prices_cases [of str_float w coins s "cache_key coins"])
    case (primary fetched sent)
    have "map_of (backfill m coins fetched) X = Some q' \<Longrightarrow> q' \<noteq> q \<Longrightarrow>
          map_of fetched X = Some q'" for q'
      using assms(3) by (auto simp: map_of_backfill split: option.splits if_splits)
    then show ?thesis
      unfolding c using primary assms(1) by (auto simp: update_caches_def)
  next
    case (secondary e)
    have "coingecko_prices (coingecko_api w) coins
          = Inr (get_prices_from_coingecko (coingecko_api w) coins)"
      using secondary(2) by (rule any_price_fetched)
    then show ?thesis
      unfolding c using secondary coingecko_failed_no_price [of "coingecko_api w" coins]
      by (auto simp: update_caches_def)
  next
    case (neither e)
    then show ?thesis
      unfolding c using assms by simp
  qed
qed

theorem never_clear_witness:
  "cache warm (cache_key coins_be) = Some [(''BTC'', btc_50000), (''ETH'', eth_3000)]
   \<and> cache_time warm (cache_key coins_be) = Some 100
   \<and> map_of [(''BTC'', btc_50000), (''ETH'', eth_3000)] ''BTC'' = Some btc_50000
   \<and> truthy (price btc_50000)
   \<and> fst (binance_prices decimal (binance_api down_world) coins_be) = Inl RequestException
   \<and> coingecko_prices (coingecko_api down_world) coins_be = Inl RequestException
   \<and> result (get_current_prices decimal down_world warm coins_be)
       = Inr [(''BTC'', btc_50000), (''ETH'', eth_3000)]
   \<and> state (get_current_prices decimal down_world warm coins_be) = warm"
proof -
  have x: "map_of [(''BTC'', btc_50000), (''ETH'', eth_3000)] ''BTC'' = Some btc_50000"
    by simp
  have b: "fst (binance_prices decimal (binance_api down_world) coins_be) = Inl RequestException"
    by (simp add: down_world_def binance_down)
  have g: "coingecko_prices (coingecko_api down_world) coins_be = Inl RequestException"
    by (simp add: down_world_def coingecko_down)
  have p: "truthy (price btc_50000)" by (simp add: btc_50000_def)
  show ?thesis
    using never_clear [OF warm_cache warm_time x, of decimal down_world] b g p
      warm_cache warm_time x
    by simp
qed

text \<open>
  Two ways a cached non-zero quote for BTC gives way to a zero price. A zero price that
  Binance itself reports replaces it in the entry. And a call for another coin list that
  includes BTC has another key: with both upstreams down it finds no entry and returns the
  zero placeholder for BTC, although the fetcher still holds BTC at 50000 under the key of
  BTC and ETH.
\<close>

theorem never_clear_counterexample:
  "cache warm (cache_key coins_be) = Some [(''BTC'', btc_50000), (''ETH'', eth_3000)]
   \<and> truthy (price btc_50000)
   \<and> cache (state (get_current_prices decimal zero_world warm coins_be)) (cache_key coins_be)
       = Some [(''BTC'', \<lparr>price = JNum 0, change_24h = JNum 0\<rparr>), (''ETH'', eth_3000)]
   \<and> \<not> truthy (price \<lparr>price = JNum 0, change_24h = JNum 0\<rparr>)
   \<and> ''BTC'' \<in> set [''BTC'']
   \<and> fst (binance_prices decimal (binance_api down_world) [''BTC'']) = Inl RequestException
   \<and> coingecko_prices (coingecko_api down_world) [''BTC''] = Inl RequestException
   \<and> result (get_current_prices decimal down_world warm [''BTC''])
       = Inr [(''BTC'', \<lparr>price = JNum 0, change_24h = JNum 0\<rparr>)]
   \<and> state (get_current_prices decimal down_world warm [''BTC'']) = warm"
proof -
  have p: "truthy (price btc_50000)" by (simp add: btc_50000_def)
  have z: "cache (state (get_current_prices decimal zero_world warm coins_be)) (cache_key coins_be)
       = Some [(''BTC'', \<lparr>price = JNum 0, change_24h = JNum 0\<rparr>), (''ETH'', eth_3000)]"
    by (simp add: run_zero key_be update_caches_def)
  have b: "fst (binance_prices decimal (binance_api down_world) [''BTC'']) = Inl RequestException"
    by (simp add: down_world_def binance_down_btc)
  have g: "coingecko_prices (coingecko_api down_world) [''BTC''] = Inl RequestException"
    by (simp add: down_world_def coingecko_down)
  show ?thesis
    using p z b g warm_cache by (simp add: run_down_other_key)
qed

text \<open>
  C2. On every fetcher that a program can hold, for every list of coins and whatever the
  two upstreams do, the call returns a dictionary of quotes: no exception reaches the
  caller.
\<close>

theorem get_current_prices_total:
  assumes "reachable s"
  shows "\<exists>prices. result (get_current_prices str_float w s coins) = Inr prices"
proof (cases "cache s (cache_key coins)")
  case None
  then show ?thesis
    using fetch_returns [of str_float w s coins "cache_key coins"]
    by (simp add: get_current_prices_def)
next
  case (Some m)
  with reachable_stamped [OF assms] obtain t where "cache_time s (cache_key coins) = Some t"
    by auto
  with Some show ?thesis
    using fetch_returns [of str_float w s coins "cache_key coins"]
    by (simp add: get_current_prices_def)
qed

theorem get_current_prices_total_witness:
  "reachable init_fetcher
   \<and> (\<exists>prices. result (get_current_prices decimal down_world init_fetcher coins_be) = Inr prices)"
  using get_current_prices_total [OF reachable.init, of decimal down_world coins_be]
    reachable.init by simp

text \<open>
  C3, as the code has it. When the cache holds an entry for the fingerprint whose age is
  strictly below the one-second window, the call returns that entry, changes nothing and
  sends no request. Consequently, when the fetcher was left by an earlier call, the two
  calls together send only what the earlier one sent: at most one request to Binance,
  followed by at most one to CoinGecko, the latter only after the Binance attempt failed.
\<close>

theorem fresh_cache_short_circuit:
  assumes "cache s (cache_key coins) = Some m"
    and "cache_time s (cache_key coins) = Some t"
    and "time_check w - t < cache_duration"
  shows "get_current_prices str_float w s coins = \<lparr>result = Inr m, state = s, requests = []\<rparr>
    \<and> (s = state (get_current_prices str_float0 w0 s0 coins0) \<longrightarrow>
         requests (get_current_prices str_float0 w0 s0 coins0)
           @ requests (get_current_prices str_float w s coins)
           \<in> {[], [Binance], [Binance, CoinGecko]}
         \<and> (requests (get_current_prices str_float0 w0 s0 coins0)
               @ requests (get_current_prices str_float w s coins) = [Binance, CoinGecko]
             \<longrightarrow> (\<exists>e. fst (binance_prices str_float0 (binance_api w0) coins0) = Inl e)))"
proof -
  have f: "get_current_prices str_float w s coins = \<lparr>result = Inr m, state = s, requests = []\<rparr>"
    using assms by (rule fresh_call)
  show ?thesis
    unfolding f
    using call_requests [of str_float0 w0 s0 coins0]
      call_two_requests [of str_float0 w0 s0 coins0]
    by simp
qed

theorem fresh_cache_short_circuit_witness:
  "cache (state first_call) (cache_key coins_be) = Some [(''BTC'', btc_50000), (''ETH'', eth_3000)]
   \<and> cache_time (state first_call) (cache_key coins_be) = Some 100
   \<and> time_check later_world - 100 < cache_duration
   \<and> second_call = \<lparr>result = Inr [(''BTC'', btc_50000), (''ETH'', eth_3000)],
                      state = state first_call, requests = []\<rparr>
   \<and> requests first_call @ requests second_call \<in> {[], [Binance], [Binance, CoinGecko]}"
proof -
  have h: "time_check later_world - 100 < cache_duration"
    by (simp add: later_world_def cache_duration_def)
  show ?thesis
    using fresh_cache_short_circuit [OF first_cache first_time h,
        of decimal decimal fallback_world init_fetcher coins_be,
        folded first_call_def, folded second_call_def]
      first_cache first_time h
    by simp
qed

text \<open>Two calls, the second answered by the fresh entry of the first, and two requests.\<close>

theorem two_requests_counterexample:
  "cache_time (state first_call) (cache_key coins_be) = Some 100
   \<and> time_check later_world - 100 < cache_duration
   \<and> result second_call = result first_call
   \<and> requests first_call @ requests second_call = [Binance, CoinGecko]
   \<and> \<not> length (requests first_call @ requests second_call) \<le> 1"
  using first_time
  by (simp add: run_second run_first later_world_def cache_duration_def)

text \<open>
  C4. When the cache does not answer and the Binance attempt succeeds, the call returns
  and stores, stamped with the time of storing, the merged dictionary: every coin that
  Binance returned has Binance's quote, and every other requested coin has the quote of
  the previous entry for the fingerprint, when that entry has one.
\<close>

theorem partial_primary_backfill:
  assumes "cache s (cache_key coins) = None
           \<or> (\<exists>t. cache_time s (cache_key coins) = Some t \<and> \<not> time_check w - t < cache_duration)"
    and "fst (binance_prices str_float (binance_api w) coins) = Inr fetched"
  shows "\<exists>merged.
           result (get_current_prices str_float w s coins) = Inr merged
         \<and> cache (state (get_current_prices str_float w s coins)) (cache_key coins) = Some merged
         \<and> cache_time (state (get_current_prices str_float w s coins)) (cache_key coins)
             = Some (time_store w)
         \<and> (\<forall>coin. map_of merged coin =
               (case map_of fetched coin of
                  Some q \<Rightarrow> Some q
                | None \<Rightarrow>
                    if coin \<in> set coins
                    then map_of (case cache s (cache_key coins) of None \<Rightarrow> [] | Some m \<Rightarrow> m) coin
                    else None))"
proof -
  have c: "get_current_prices str_float w s coins
           = fetch_prices str_float w s coins (cache_key coins)"
    using assms(1) by (rule stale_call)
  obtain sent where b: "binance_prices str_float (binance_api w) coins = (Inr fetched, sent)"
    using assms(2) by (cases "binance_prices str_float (binance_api w) coins") simp
  show ?thesis
    unfolding c
    by (simp add: fetch_prices_def b Let_def update_caches_def map_of_backfill)
qed

theorem partial_primary_backfill_witness:
  "(\<exists>t. cache_time warm (cache_key coins_be) = Some t
        \<and> \<not> time_check partial_world - t < cache_duration)
   \<and> fst (binance_prices decimal (binance_api partial_world) coins_be)
       = Inr [(''BTC'', \<lparr>price = JNum 51000, change_24h = JNum (5 / 2)\<rparr>)]
   \<and> cache warm (cache_key coins_be) = Some [(''BTC'', btc_50000), (''ETH'', eth_3000)]
   \<and> (\<exists>merged.
         result (get_current_prices decimal partial_world warm coins_be) = Inr merged
       \<and> cache (state (get_current_prices decimal partial_world warm coins_be))
           (cache_key coins_be) = Some merged
       \<and> map_of merged ''BTC'' = Some \<lparr>price = JNum 51000, change_24h = JNum (5 / 2)\<rparr>
       \<and> map_of merged ''ETH'' = Some eth_3000)"
proof -
  have st: "\<exists>t. cache_time warm (cache_key coins_be) = Some t
        \<and> \<not> time_check partial_world - t < cache_duration"
    by (simp add: warm_time partial_world_def cache_duration_def)
  have ok: "fst (binance_prices decimal (binance_api partial_world) coins_be)
       = Inr [(''BTC'', \<lparr>price = JNum 51000, change_24h = JNum (5 / 2)\<rparr>)]"
    by (simp add: binance_partial)
  have "\<exists>merged.
         result (get_current_prices decimal partial_world warm coins_be) = Inr merged
       \<and> cache (state (get_current_prices decimal partial_world warm coins_be))
           (cache_key coins_be) = Some merged
       \<and> map_of merged ''BTC'' = Some \<lparr>price = JNum 51000, change_24h = JNum (5 / 2)\<rparr>
       \<and> map_of merged ''ETH'' = Some eth_3000"
    using partial_primary_backfill [OF disjI2 [OF st] ok] warm_cache
    by (auto simp: coins_be_def)
  with st ok warm_cache show ?thesis by simp
qed

text \<open>
  C10. After construction and after every call, every key of the quotes cache is a key of
  the cache-time dictionary, so line 70 finds the fetch time of every key it looks up.
\<close>

theorem cache_keys_stamped:
  "reachable s \<Longrightarrow> cache s key \<noteq> None \<Longrightarrow> cache_time s key \<noteq> None"
proof (induction arbitrary: key rule: reachable.induct)
  case init
  then show ?case by (simp add: init_fetcher_def)
next
  case (call s str_float w coins)
  have "dom (cache s) \<subseteq> dom (cache_time s)"
    using call.IH by auto
  hence "dom (cache (state (get_current_prices str_float w s coins)))
         \<subseteq> dom (cache_time (state (get_current_prices str_float w s coins)))"
    by (rule stamped_call)
  with call.prems show ?case by auto
qed

theorem cache_keys_stamped_witness:
  "reachable (state first_call)
   \<and> cache (state first_call) (cache_key coins_be) \<noteq> None
   \<and> cache_time (state first_call) (cache_key coins_be) \<noteq> None"
proof -
  have r: "reachable (state first_call)"
    unfolding first_call_def by (rule reachable.call [OF reachable.init])
  have c: "cache (state first_call) (cache_key coins_be) \<noteq> None"
    by (simp add: first_cache)
  show ?thesis using r c cache_keys_stamped [OF r c] by simp
qed

end
